theory Spec2Isabelle
  imports Complex_Main "HOL-Library.Sublist" "HOL-Library.Log_Nat"
begin

section \<open>Common modelling conventions\<close>

text \<open>
  The service is a FastAPI application with four endpoints and a health check.
  Each endpoint is embedded as a HOL function of its request and of the external
  collaborators it talks to (the forecasting library, the chat-completion client, the
  random source).  A function returns the value the endpoint returns or the exception it
  raises, together with the list of external calls it made, in order.

  A Python \<open>float\<close> is an IEEE-754 double.  A double is modelled by its value, a
  rational, and every literal and every arithmetic operation of the source rounds its
  exact result to the nearest double, ties to the even significand (\<open>fl\<close> below), as
  the hardware does.  The exponent is not bounded: overflow to infinity and subnormal
  numbers are outside the model.  The one non-number that the code can meet, the
  \<open>NaN\<close> that pandas returns for the mean of an empty series, is \<open>None\<close> of
  \<open>rat option\<close>.  What pandas and NumPy compute (sums and means of columns, rounding
  of a \<open>numpy.float64\<close>) is taken from the environment, like the forecast itself.
  Python \<open>int\<close> is \<open>int\<close>, \<open>str\<close> is \<open>string\<close> with one \<open>char\<close> per code point
  below 256.
\<close>

subsection \<open>Exceptions\<close>

text \<open>
  The exceptions the handlers distinguish: \<open>fastapi.HTTPException(status_code, detail)\<close>,
  \<open>ImportError\<close>, and any other \<open>Exception\<close>, which carries the text that \<open>str(e)\<close>
  gives.  \<open>str\<close> of an \<open>HTTPException\<close> is defined by the installed Starlette and is a
  parameter of the model (\<open>http_exception_str\<close> below).  The text of an \<open>ImportError\<close>
  is never read: each endpoint handles it before its general handler.
\<close>

datatype exn = HTTPException nat string | ImportError | Exception string

fun str_exn :: "(nat \<Rightarrow> string \<Rightarrow> string) \<Rightarrow> exn \<Rightarrow> string" where
  "str_exn hs (HTTPException status_code detail) = hs status_code detail"
| "str_exn hs ImportError = ''No module named''"
| "str_exn hs (Exception msg) = msg"

subsection \<open>Python built-ins\<close>

text \<open>\<open>str(n)\<close> for a non-negative integer.\<close>

fun str_nat :: "nat \<Rightarrow> string" where
  "str_nat n = (if n < 10 then [char_of (48 + n)]
                else str_nat (n div 10) @ [char_of (48 + n mod 10)])"

declare str_nat.simps [simp del]

text \<open>\<open>int(x)\<close> truncates towards zero.\<close>

definition py_int :: "rat \<Rightarrow> int" where
  "py_int x = (if 0 \<le> x then \<lfloor>x\<rfloor> else \<lceil>x\<rceil>)"

text \<open>The integer nearest to a rational, a tie going to the even one.\<close>

definition round_half_even :: "rat \<Rightarrow> int" where
  "round_half_even y =
     (let f = \<lfloor>y\<rfloor>; d = y - of_int f
      in if d < 1 / 2 then f
         else if 1 / 2 < d then f + 1
         else if even f then f else f + 1)"

text \<open>
  The binary exponent of a positive rational \<open>x\<close>: the \<open>e\<close> with
  \<open>2 powi e \<le> x < 2 powi (e + 1)\<close>, found from the bit lengths of numerator and
  denominator.
\<close>

definition ilog2 :: "rat \<Rightarrow> int" where
  "ilog2 x = (let (p, q) = quotient_of x; d = bitlen p - bitlen q
              in if 2 powi d \<le> x then d else d - 1)"

text \<open>
  Rounding to the nearest double: the significand of a double has 53 bits, so the
  doubles from \<open>2 powi e\<close> to \<open>2 powi (e + 1)\<close> are the multiples of \<open>2 powi (e - 52)\<close>.
\<close>

definition fl :: "rat \<Rightarrow> rat" where
  "fl x = (if x = 0 then 0
           else let e = ilog2 \<bar>x\<bar> - 52
                in sgn x * of_int (round_half_even (\<bar>x\<bar> / 2 powi e)) * 2 powi e)"

text \<open>
  \<open>round(x, 2)\<close> of a Python \<open>float\<close>: CPython rounds the exact value of the double to two
  decimals, a tie going to the even digit, and returns the double nearest to that decimal.
\<close>

definition py_round2 :: "rat \<Rightarrow> rat" where
  "py_round2 x = fl (of_int (round_half_even (x * 100)) / 100)"

text \<open>
  \<open>min(a, b)\<close> where \<open>b\<close> may be NaN: Python keeps \<open>a\<close> unless \<open>b < a\<close>, and every
  comparison with NaN is false.
\<close>

definition py_min :: "rat \<Rightarrow> rat option \<Rightarrow> rat" where
  "py_min a b = (case b of None \<Rightarrow> a | Some y \<Rightarrow> if y < a then y else a)"

text \<open>\<open>max(a, b)\<close> on numbers: \<open>a\<close> unless \<open>b > a\<close>.\<close>

definition py_max :: "rat \<Rightarrow> rat \<Rightarrow> rat" where
  "py_max a b = (if a < b then b else a)"

text \<open>\<open>xs[-n:]\<close> and pandas' \<open>tail(n)\<close>: the last \<open>n\<close> elements, all of them if there are fewer.\<close>

definition tail :: "nat \<Rightarrow> 'a list \<Rightarrow> 'a list" where
  "tail n xs = drop (length xs - n) xs"

text \<open>\<open>p in s\<close> on strings, \<open>s.lower()\<close> on ASCII letters, \<open>s.strip()\<close>.\<close>

fun py_in :: "string \<Rightarrow> string \<Rightarrow> bool" where
  "py_in p [] = (p = [])"
| "py_in p (c # cs) = (prefix p (c # cs) \<or> py_in p cs)"

definition lower_char :: "char \<Rightarrow> char" where
  "lower_char c = (let n = (of_char c :: nat) in if 65 \<le> n \<and> n \<le> 90 then char_of (n + 32) else c)"

definition py_lower :: "string \<Rightarrow> string" where
  "py_lower s = map lower_char s"

definition py_isspace :: "char \<Rightarrow> bool" where
  "py_isspace c = ((of_char c :: nat) \<in> {9, 10, 11, 12, 13, 28, 29, 30, 31, 32, 133, 160})"

definition py_strip :: "string \<Rightarrow> string" where
  "py_strip s = rev (dropWhile py_isspace (rev (dropWhile py_isspace s)))"

text \<open>
  \<open>s.replace(p, "")\<close>: the occurrences of \<open>p\<close> are deleted, scanning from the left and
  resuming after each deleted occurrence.  With an empty \<open>p\<close> nothing is deleted.
\<close>

function remove_all :: "string \<Rightarrow> string \<Rightarrow> string" where
  "remove_all p [] = []"
| "remove_all p (c # cs) =
     (if p \<noteq> [] \<and> prefix p (c # cs) then remove_all p (drop (length p) (c # cs))
      else c # remove_all p cs)"
  by pat_completeness auto
termination
  by (relation "measure (\<lambda>(p, s). length s)") (auto simp: Suc_le_eq)

subsection \<open>External calls\<close>

text \<open>
  What an endpoint asks of the outside world, recorded in order: the lazy imports of the
  two libraries, one forecasting run on a series (data frame construction, fit and
  prediction), one chat completion.
\<close>

record ChatMessage =
  role :: string
  content :: string

record completion_params =
  model :: string
  messages :: "ChatMessage list"
  max_tokens :: nat
  temperature :: rat

datatype ext_call =
    ImportProphet
  | ProphetForecast "string list" "int list"
  | ImportOpenAI
  | ChatCompletionsCreate completion_params

section \<open>Configuration and health check (app/config.py, app/main.py)\<close>

record Settings =
  OPENAI_API_KEY :: string
  ENVIRONMENT :: string
  LOG_LEVEL :: string
  PORT :: int
  ALLOWED_ORIGINS :: "string list"

record health_response =
  status :: string
  openai_configured :: bool

text \<open>\<open>bool(s)\<close> of a string is its non-emptiness.\<close>

definition health_check :: "Settings \<Rightarrow> health_response" where
  "health_check settings =
     \<lparr>status = ''healthy'', openai_configured = (OPENAI_API_KEY settings \<noteq> [])\<rparr>"

section \<open>Demand forecasting (app/routers/demand.py)\<close>

record PredictDemandRequest =
  demand_tenant_id :: string
  demand_product_id :: string
  historical_sales :: "int list"
  dates :: "string list"

record PredictDemandResponse =
  next_month_forecast :: int
  forecast_confidence :: rat
  trend :: string

text \<open>One row of the data frame that \<open>model.predict\<close> returns.\<close>

record forecast_row =
  yhat :: rat
  yhat_lower :: rat
  yhat_upper :: rat

text \<open>
  The collaborators of the endpoint.  Prophet: whether \<open>from prophet import Prophet\<close>
  succeeds, and what building the frame, fitting and predicting give on the dates and
  the sales: the forecast frame, or the text of the exception raised.  pandas:
  \<open>Series.sum()\<close> of a column of doubles, \<open>Series.mean()\<close> of a column of integers and of
  a column of doubles (\<open>None\<close> is NaN); each returns a \<open>numpy.float64\<close>.  NumPy:
  \<open>round(x, 2)\<close> of a \<open>numpy.float64\<close>, which calls the \<open>__round__\<close> of that type.
  Starlette: \<open>str\<close> of an \<open>HTTPException\<close>.
\<close>

record demand_env =
  prophet_installed :: bool
  prophet_forecast :: "string list \<Rightarrow> int list \<Rightarrow> string + forecast_row list"
  series_sum :: "rat list \<Rightarrow> rat"
  int_series_mean :: "int list \<Rightarrow> rat option"
  series_mean :: "rat list \<Rightarrow> rat option"
  round2 :: "rat \<Rightarrow> rat"
  http_exception_str :: "nat \<Rightarrow> string \<Rightarrow> string"

text \<open>
  The conditional expression of lines 67 to 69, on the forecast (an integer) and
  \<open>recent_avg\<close> (a double or NaN).  The literal \<open>0.9\<close> is the double nearest to 9/10 and
  the product is rounded.  An integer is compared with a double by value; every
  comparison with NaN is false.
\<close>

definition classify_trend :: "int \<Rightarrow> rat option \<Rightarrow> string" where
  "classify_trend next_month recent_avg =
     (case recent_avg of
        None \<Rightarrow> ''stable''
      | Some a \<Rightarrow>
          if a < of_int next_month then ''increasing''
          else if of_int next_month < fl (a * fl (9 / 10)) then ''decreasing''
          else ''stable'')"

text \<open>
  Lines 59 to 80: the response computed from the fitted forecast.  In the quotient of
  line 74 the integer divisor is converted to a double first.  The value that is rounded
  is the literal \<open>0.5\<close> or \<open>0.95\<close> when the clamp applies and a \<open>numpy.float64\<close> strictly
  between them otherwise; \<open>round2\<close> stands for \<open>round(x, 2)\<close> on all of them.
\<close>

definition forecast_response ::
  "demand_env \<Rightarrow> int list \<Rightarrow> forecast_row list \<Rightarrow> PredictDemandResponse" where
  "forecast_response env sales forecast =
     (let next_month_forecast = py_int (series_sum env (map yhat (tail 30 forecast)));
          next_month_forecast = max 0 next_month_forecast;
          recent_avg = int_series_mean env (tail 3 sales);
          trend = classify_trend next_month_forecast recent_avg;
          uncertainty = (case (series_mean env (map yhat_upper (tail 30 forecast)),
                               series_mean env (map yhat_lower (tail 30 forecast))) of
                           (Some u, Some l) \<Rightarrow> Some (fl (u - l))
                         | _ \<Rightarrow> None);
          confidence = py_max (1 / 2)
             (py_min (fl (19 / 20))
                (map_option (\<lambda>u. fl (1 - fl (u / fl (of_int (max 1 next_month_forecast)))))
                   uncertainty))
      in \<lparr>next_month_forecast = next_month_forecast,
          forecast_confidence = round2 env confidence,
          trend = trend\<rparr>)"

text \<open>The body of the \<open>try\<close> block, lines 19 to 80.\<close>

definition predict_demand_body ::
  "demand_env \<Rightarrow> PredictDemandRequest \<Rightarrow> (exn + PredictDemandResponse) \<times> ext_call list" where
  "predict_demand_body env request =
     (if length (historical_sales request) < 3 then
        (Inl (HTTPException 400 ''Need at least 3 months of historical data for forecasting''), [])
      else if length (historical_sales request) \<noteq> length (dates request) then
        (Inl (HTTPException 400 ''Number of sales values must match number of dates''), [])
      else if \<not> prophet_installed env then
        (Inl ImportError, [ImportProphet])
      else
        (case prophet_forecast env (dates request) (historical_sales request) of
           Inl msg \<Rightarrow>
             (Inl (Exception msg),
              [ImportProphet, ProphetForecast (dates request) (historical_sales request)])
         | Inr forecast \<Rightarrow>
             (Inr (forecast_response env (historical_sales request) forecast),
              [ImportProphet, ProphetForecast (dates request) (historical_sales request)])))"

text \<open>
  The endpoint: the body under its two handlers, lines 82 to 91.  \<open>except Exception\<close>
  catches every exception that is not an \<open>ImportError\<close>, the \<open>HTTPException\<close>s raised by
  the body included.
\<close>

definition predict_demand ::
  "demand_env \<Rightarrow> PredictDemandRequest \<Rightarrow> (exn + PredictDemandResponse) \<times> ext_call list" where
  "predict_demand env request =
     (case predict_demand_body env request of
        (Inr resp, calls) \<Rightarrow> (Inr resp, calls)
      | (Inl ImportError, calls) \<Rightarrow>
          (Inl (HTTPException 500
             ''Prophet library not installed. Please install with: pip install prophet''), calls)
      | (Inl e, calls) \<Rightarrow>
          (Inl (HTTPException 500
             (''Forecasting error: '' @ str_exn (http_exception_str env) e)), calls))"

section \<open>Recommendations (app/routers/recommendations.py)\<close>

record RecommendUpsellRequest =
  upsell_tenant_id :: string
  current_cart_items :: "string list"

record UpsellRecommendation =
  product_id :: string
  confidence :: rat
  reason :: string

record RecommendUpsellResponse =
  recommendations :: "UpsellRecommendation list"

text \<open>
  The static table \<open>FREQUENTLY_BOUGHT_TOGETHER\<close>: its entries are dictionaries of the three
  keys of a recommendation, and its only key is \<open>default\<close>.
\<close>

definition FREQUENTLY_BOUGHT_TOGETHER :: "(string \<times> UpsellRecommendation list) list" where
  "FREQUENTLY_BOUGHT_TOGETHER =
     [(''default'',
       [\<lparr>product_id = ''recommended-1'', confidence = fl (75 / 100),
         reason = ''Popular combination''\<rparr>,
        \<lparr>product_id = ''recommended-2'', confidence = fl (70 / 100),
         reason = ''Frequently bought together''\<rparr>,
        \<lparr>product_id = ''recommended-3'', confidence = fl (65 / 100),
         reason = ''Similar customers bought''\<rparr>])]"

text \<open>
  \<open>FREQUENTLY_BOUGHT_TOGETHER.get(item_id, FREQUENTLY_BOUGHT_TOGETHER["default"])\<close>.  The
  default argument is evaluated first; it would raise \<open>KeyError\<close> if the table had no
  \<open>default\<close> key, which it has.
\<close>

definition associated_products :: "string \<Rightarrow> UpsellRecommendation list" where
  "associated_products item_id =
     (case map_of FREQUENTLY_BOUGHT_TOGETHER ''default'' of
        None \<Rightarrow> []
      | Some dflt \<Rightarrow>
          (case map_of FREQUENTLY_BOUGHT_TOGETHER item_id of
             None \<Rightarrow> dflt
           | Some associated \<Rightarrow> associated))"

text \<open>
  The state of the two loops: the recommendations appended so far, the set
  \<open>seen_products\<close>, and the number of values drawn from the random source.  The source
  \<open>uniform\<close> gives the value of the \<open>k\<close>-th call of \<open>random.uniform(-0.05, 0.05)\<close>.
\<close>

type_synonym upsell_state = "UpsellRecommendation list \<times> string set \<times> nat"

text \<open>The inner loop, lines 68 to 80.\<close>

fun assoc_loop :: "(nat \<Rightarrow> rat) \<Rightarrow> UpsellRecommendation list \<Rightarrow> upsell_state \<Rightarrow> upsell_state" where
  "assoc_loop uniform [] st = st"
| "assoc_loop uniform (assoc # rest) (recs, seen_products, k) =
     (if product_id assoc \<notin> seen_products then
        assoc_loop uniform rest
          (recs @ [\<lparr>product_id = product_id assoc,
                    confidence = py_round2 (fl (confidence assoc + uniform k)),
                    reason = reason assoc\<rparr>],
           insert (product_id assoc) seen_products,
           Suc k)
      else assoc_loop uniform rest (recs, seen_products, k))"

text \<open>The outer loop, lines 61 to 80.\<close>

fun cart_loop :: "(nat \<Rightarrow> rat) \<Rightarrow> string list \<Rightarrow> upsell_state \<Rightarrow> upsell_state" where
  "cart_loop uniform [] st = st"
| "cart_loop uniform (item_id # rest) st =
     cart_loop uniform rest (assoc_loop uniform (associated_products item_id) st)"

text \<open>
  \<open>recommendations.sort(key=lambda x: x.confidence, reverse=True)\<close>: a stable sort into
  descending order, which is the stable ascending sort on the negated key.
\<close>

definition sort_by_confidence :: "UpsellRecommendation list \<Rightarrow> UpsellRecommendation list" where
  "sort_by_confidence recs = sort_key (\<lambda>x. - confidence x) recs"

text \<open>
  The placeholder list for an empty cart, lines 43 to 52: \<open>0.8 - (i * 0.1)\<close> converts
  \<open>i\<close> to a double, multiplies and subtracts, rounding each result.
\<close>

definition popular_products :: "UpsellRecommendation list" where
  "popular_products =
     map (\<lambda>i. \<lparr>product_id = ''popular-'' @ str_nat i,
               confidence = fl (fl (8 / 10) - fl (fl (of_nat i) * fl (1 / 10))),
               reason = ''Trending product''\<rparr>) [0 ..< min 3 5]"

text \<open>
  The endpoint.  Nothing in the body raises on a well-typed request, so the handler of
  lines 98 to 102 is never entered and the endpoint always returns a response.
\<close>

definition recommend_upsell :: "(nat \<Rightarrow> rat) \<Rightarrow> RecommendUpsellRequest \<Rightarrow> RecommendUpsellResponse" where
  "recommend_upsell uniform request =
     (if current_cart_items request = [] then \<lparr>recommendations = popular_products\<rparr>
      else
        (let (recs, seen_products, k) =
               cart_loop uniform (current_cart_items request)
                 ([], set (current_cart_items request), 0);
             recs = sort_by_confidence recs;
             recs = take 5 recs;
             recs = (if recs = [] then
                       [\<lparr>product_id = ''complementary-product'', confidence = fl (60 / 100),
                         reason = ''Complementary product''\<rparr>]
                     else recs)
         in \<lparr>recommendations = recs\<rparr>))"

section \<open>Chat (app/routers/chat.py, app/schemas/chat.py)\<close>

text \<open>
  The schema gives \<open>ChatMessage\<close> two required fields of type \<open>str\<close>; it has no validator,
  enumeration or pattern, so every string is a valid role.  \<open>metadata\<close> is not read by the
  endpoint and is left out.  \<open>context\<close> (here \<open>request_context\<close>) is optional: an explicit
  \<open>null\<close> is \<open>None\<close>.
\<close>

record ChatContext =
  current_page :: "string option"
  conversation_history :: "ChatMessage list"

record ChatRequest =
  chat_tenant_id :: string
  user_message :: string
  request_context :: "ChatContext option"

record ChatResponse =
  response :: string
  suggestions :: "string list"

text \<open>
  The chat-completion collaborator: whether \<open>from openai import OpenAI\<close> succeeds, and
  what \<open>client.chat.completions.create\<close> followed by \<open>response.choices[0].message.content\<close>
  gives: the reply, or the text of the exception raised.
\<close>

record chat_env =
  openai_installed :: bool
  completions_create :: "completion_params \<Rightarrow> string + string"
  chat_http_exception_str :: "nat \<Rightarrow> string \<Rightarrow> string"

definition suggestions_map :: "(string \<times> string list) list" where
  "suggestions_map =
     [(''/inventory'', [''View low stock alerts'', ''Check product details'', ''Create purchase order'']),
      (''/crm/leads'', [''Create new lead'', ''View pipeline'', ''Export leads to CSV'']),
      (''/crm/deals'', [''View deal pipeline'', ''Move deal to next stage'', ''Generate sales report'']),
      (''/sales'', [''Create new order'', ''View recent orders'', ''Generate invoice'']),
      (''/purchasing'', [''Create purchase order'', ''Receive goods'', ''View vendor list'']),
      (''default'', [''View dashboard'', ''Check notifications'', ''Browse help docs''])]"

text \<open>The loop of \<open>generate_suggestions\<close> over the items of the dictionary, in insertion order.\<close>

fun find_suggestions :: "(string \<times> string list) list \<Rightarrow> string \<Rightarrow> string list option" where
  "find_suggestions [] page = None"
| "find_suggestions ((page_path, suggs) # rest) page =
     (if py_in page_path page then Some suggs else find_suggestions rest page)"

definition generate_suggestions :: "string \<Rightarrow> string \<Rightarrow> string list" where
  "generate_suggestions page user_msg =
     (case find_suggestions suggestions_map page of
        Some suggs \<Rightarrow> suggs
      | None \<Rightarrow> (case map_of suggestions_map ''default'' of Some suggs \<Rightarrow> suggs | None \<Rightarrow> []))"

definition system_prompt :: "string \<Rightarrow> string \<Rightarrow> string" where
  "system_prompt page tenant =
     ''You are Nexus AI, a helpful assistant for the NEXUS CRM & ERP platform.\<newline>'' @
     ''\<newline>'' @
     ''Current Context:\<newline>'' @
     ''- User is viewing: '' @ page @ ''\<newline>'' @
     ''- Tenant: '' @ tenant @ ''\<newline>'' @
     ''\<newline>'' @
     ''Your capabilities:\<newline>'' @
     ''- Answer questions about the NEXUS platform features\<newline>'' @
     ''- Provide guidance on how to use different modules (CRM, Inventory, Sales, Purchasing)\<newline>'' @
     ''- Suggest actions users can take\<newline>'' @
     ''- Explain business metrics and reports\<newline>'' @
     ''\<newline>'' @
     ''Guidelines:\<newline>'' @
     ''- Be concise and helpful\<newline>'' @
     ''- If the user asks about data (sales, inventory levels, etc.), remind them that you can't access live data, but suggest where they can find it\<newline>'' @
     ''- Suggest specific actions they can take (e.g., \"Check the Low Stock Alerts page\")\<newline>'' @
     ''- Keep responses under 100 words when possible\<newline>'' @
     ''- Be professional but friendly\<newline>'' @
     ''\<newline>'' @
     ''If you don't know something, admit it and suggest how they might find the answer.''"

text \<open>
  Lines 58 to 75: the system message, the last five entries of the history (the \<open>if\<close>
  that guards the loop skips an empty history, over which the loop would do nothing), the
  user's message.
\<close>

definition build_messages :: "string \<Rightarrow> ChatRequest \<Rightarrow> ChatContext \<Rightarrow> ChatMessage list" where
  "build_messages page request ctx =
     (let messages = [\<lparr>role = ''system'', content = system_prompt page (chat_tenant_id request)\<rparr>];
          messages = (if conversation_history ctx \<noteq> [] then
                        messages @ map (\<lambda>msg. \<lparr>role = role msg, content = content msg\<rparr>)
                                       (tail 5 (conversation_history ctx))
                      else messages)
      in messages @ [\<lparr>role = ''user'', content = user_message request\<rparr>])"

text \<open>
  The body of the \<open>try\<close> block, lines 22 to 94.  With \<open>context\<close> equal to \<open>None\<close>, reading
  \<open>request.context.current_page\<close> raises \<open>AttributeError\<close>.
\<close>

definition chat_body ::
  "Settings \<Rightarrow> chat_env \<Rightarrow> ChatRequest \<Rightarrow> (exn + ChatResponse) \<times> ext_call list" where
  "chat_body settings env request =
     (if OPENAI_API_KEY settings = [] then
        (Inl (HTTPException 500 ''OpenAI API key not configured''), [])
      else if \<not> openai_installed env then
        (Inl ImportError, [ImportOpenAI])
      else
        (case request_context request of
           None \<Rightarrow>
             (Inl (Exception (CHR 0x27 # ''NoneType'' @ CHR 0x27 # '' object has no attribute '' @
                               CHR 0x27 # ''current_page'' @ [CHR 0x27])),
              [ImportOpenAI])
         | Some ctx \<Rightarrow>
             (let page = (case current_page ctx of
                            None \<Rightarrow> ''unknown''
                          | Some p \<Rightarrow> if p = [] then ''unknown'' else p);
                  params = \<lparr>model = ''gpt-4o-mini'',
                            messages = build_messages page request ctx,
                            max_tokens = 300,
                            temperature = fl (7 / 10)\<rparr>
              in (case completions_create env params of
                    Inl msg \<Rightarrow>
                      (Inl (Exception msg), [ImportOpenAI, ChatCompletionsCreate params])
                  | Inr ai_response \<Rightarrow>
                      (Inr \<lparr>response = ai_response,
                            suggestions = generate_suggestions page (user_message request)\<rparr>,
                       [ImportOpenAI, ChatCompletionsCreate params])))))"

text \<open>The endpoint: the body under its two handlers, lines 96 to 117.\<close>

definition chat ::
  "Settings \<Rightarrow> chat_env \<Rightarrow> ChatRequest \<Rightarrow> (exn + ChatResponse) \<times> ext_call list" where
  "chat settings env request =
     (case chat_body settings env request of
        (Inr resp, calls) \<Rightarrow> (Inr resp, calls)
      | (Inl ImportError, calls) \<Rightarrow>
          (Inl (HTTPException 500 ''OpenAI library not installed''), calls)
      | (Inl e, calls) \<Rightarrow>
          (let error_message = str_exn (chat_http_exception_str env) e
           in if py_in ''api_key'' (py_lower error_message) then
                (Inl (HTTPException 401 ''Invalid OpenAI API key''), calls)
              else if py_in ''quota'' (py_lower error_message) then
                (Inl (HTTPException 429 ''OpenAI API quota exceeded''), calls)
              else
                (Inl (HTTPException 500 (''Chat error: '' @ error_message)), calls)))"

section \<open>Invoice extraction: the post-processing of the reply (app/routers/ocr.py)\<close>

text \<open>Lines 89 to 93: the text that is handed to the JSON parser.\<close>

definition strip_code_fences :: "string \<Rightarrow> string" where
  "strip_code_fences reply =
     (if prefix ''```json'' reply then
        py_strip (remove_all ''```'' (remove_all ''```json'' reply))
      else if prefix ''```'' reply then
        py_strip (remove_all ''```'' reply)
      else reply)"

text \<open>
  Lines 95 to 97, with \<open>json.loads\<close> (and the validation that follows it) as the
  parameter \<open>loads\<close>: the parsed structure of a raw reply.
\<close>

definition parse_reply :: "(string \<Rightarrow> 'a) \<Rightarrow> string \<Rightarrow> 'a" where
  "parse_reply loads reply = loads (strip_code_fences reply)"

section \<open>The confidence formula in the words of the specification\<close>



text \<open>
  What rounding to two decimals means for a value between 0.5 and 0.95: the result is
  the double nearest to a number with two decimals, and that number is the nearest one to
  the value, up to the error of the double arithmetic that finds it.
\<close>

definition two_decimal_rounding :: "(rat \<Rightarrow> rat) \<Rightarrow> bool" where
  "two_decimal_rounding rnd \<longleftrightarrow>
     (\<forall>x. 1 / 2 \<le> x \<and> x \<le> fl (19 / 20) \<longrightarrow>
        (\<exists>k :: int. rnd x = fl (of_int k / 100) \<and> \<bar>of_int k / 100 - x\<bar> \<le> 1 / 200 + 1 / 2 ^ 50))"

section \<open>Concrete collaborators and requests\<close>

text \<open>
  The rounding that NumPy documents for \<open>round\<close> with positive decimals: multiply by the
  power of ten, round to the nearest integer (ties to even), divide by the power of ten,
  each step in doubles.
\<close>

definition numpy_round2 :: "rat \<Rightarrow> rat" where
  "numpy_round2 x = fl (of_int (round_half_even (fl (x * 100))) / 100)"

text \<open>\<open>HTTPException.__str__\<close> of current Starlette: the status code, a colon, the detail.\<close>

definition starlette_str :: "nat \<Rightarrow> string \<Rightarrow> string" where
  "starlette_str status_code detail = str_nat status_code @ '': '' @ detail"

text \<open>
  A pandas whose sum of a column is the double nearest to the exact sum and whose mean
  is that sum divided by the length, rounded.
\<close>

definition example_sum :: "rat list \<Rightarrow> rat" where
  "example_sum xs = fl (sum_list xs)"

definition example_mean :: "rat list \<Rightarrow> rat option" where
  "example_mean xs = (if xs = [] then None else Some (fl (example_sum xs / of_nat (length xs))))"

text \<open>
  A forecasting library whose frame has one row for each day of the history, fitted at 100
  between 50 and 1000, and then the same given row for each of the thirty future days;
  with that pandas, CPython's rounding and Starlette's texts.
\<close>

definition history_row :: forecast_row where
  "history_row = \<lparr>yhat = 100, yhat_lower = 50, yhat_upper = 1000\<rparr>"

definition example_demand_env :: "forecast_row \<Rightarrow> demand_env" where
  "example_demand_env row =
     \<lparr>prophet_installed = True,
      prophet_forecast = (\<lambda>ds ys. Inr (replicate (length ys) history_row @ replicate 30 row)),
      series_sum = example_sum,
      int_series_mean = (\<lambda>xs. example_mean (map of_int xs)),
      series_mean = example_mean,
      round2 = py_round2,
      http_exception_str = starlette_str\<rparr>"

text \<open>One unit a day, between 0 and 2; and 43/32 units a day, between 3 and 20.\<close>

definition unit_row :: forecast_row where
  "unit_row = \<lparr>yhat = 1, yhat_lower = 0, yhat_upper = 2\<rparr>"


definition two_point_request :: PredictDemandRequest where
  "two_point_request =
     \<lparr>demand_tenant_id = ''tenant'', demand_product_id = ''prod-1'',
      historical_sales = [150, 160], dates = [''2025-01-01'', ''2025-02-01'']\<rparr>"


definition empty_cart_request :: RecommendUpsellRequest where
  "empty_cart_request = \<lparr>upsell_tenant_id = ''tenant'', current_cart_items = []\<rparr>"

text \<open>A cart that holds the three products of the default association and the fallback product.\<close>

definition saturated_cart_request :: RecommendUpsellRequest where
  "saturated_cart_request =
     \<lparr>upsell_tenant_id = ''tenant'',
      current_cart_items =
        [''recommended-1'', ''recommended-2'', ''recommended-3'', ''complementary-product'']\<rparr>"

text \<open>The same cart with one product twice.\<close>

definition duplicate_cart_request :: RecommendUpsellRequest where
  "duplicate_cart_request =
     \<lparr>upsell_tenant_id = ''tenant'',
      current_cart_items =
        [''recommended-1'', ''recommended-1'', ''recommended-2'', ''recommended-3'',
         ''complementary-product'']\<rparr>"

definition example_settings :: "string \<Rightarrow> Settings" where
  "example_settings key =
     \<lparr>OPENAI_API_KEY = key, ENVIRONMENT = ''development'', LOG_LEVEL = ''INFO'', PORT = 8000,
      ALLOWED_ORIGINS = [''http://localhost:3000'']\<rparr>"

text \<open>A chat-completion client that always answers \<open>ok\<close>.\<close>

definition example_chat_env :: chat_env where
  "example_chat_env =
     \<lparr>openai_installed = True,
      completions_create = (\<lambda>params. Inr ''ok''),
      chat_http_exception_str = starlette_str\<rparr>"

definition tool_entry :: ChatMessage where
  "tool_entry = \<lparr>role = ''tool'', content = ''x''\<rparr>"

definition tool_context :: ChatContext where
  "tool_context = \<lparr>current_page = Some ''/sales'', conversation_history = [tool_entry]\<rparr>"

definition tool_role_request :: ChatRequest where
  "tool_role_request =
     \<lparr>chat_tenant_id = ''tenant'', user_message = ''hello'', request_context = Some tool_context\<rparr>"

definition numbered_entry :: "nat \<Rightarrow> ChatMessage" where
  "numbered_entry n = \<lparr>role = (if even n then ''user'' else ''assistant''), content = str_nat n\<rparr>"

definition long_history_context :: ChatContext where
  "long_history_context =
     \<lparr>current_page = None, conversation_history = map numbered_entry [0 ..< 7]\<rparr>"

definition long_history_request :: ChatRequest where
  "long_history_request =
     \<lparr>chat_tenant_id = ''tenant'', user_message = ''hello'',
      request_context = Some long_history_context\<rparr>"

text \<open>A well-formed extraction whose vendor name contains three backquotes.\<close>

definition backquote_reply :: string where
  "backquote_reply =
     ''{\"vendor_name\": \"A```B\", \"invoice_date\": \"2026-01-15\", '' @
     ''\"total_amount\": 10, \"line_items\": []}''"

text \<open>A reply without backquotes, between two newlines as a fenced block has them.\<close>

definition plain_reply :: string where
  "plain_reply = ''\<newline>{\"vendor_name\": \"Acme\"}\<newline>''"

section \<open>Double arithmetic\<close>

text \<open>
  Rounding to the nearest double moves a positive number by at most the fraction
  \<open>1 / 2 ^ 53\<close> of itself.
\<close>

lemma round_half_even_error: "\<bar>of_int (round_half_even y) - y\<bar> \<le> 1 / 2"
proof -
  have "of_int \<lfloor>y\<rfloor> \<le> y" "y < of_int \<lfloor>y\<rfloor> + 1" by linarith+
  then show ?thesis by (auto simp: round_half_even_def Let_def)
qed

lemma bitlen_bounds_rat:
  assumes "0 < p"
  shows "(2::rat) powi (bitlen p - 1) \<le> of_int p" and "of_int p < (2::rat) powi bitlen p"
proof -
  have b: "1 \<le> bitlen p" using assms by (auto simp: bitlen_alt_def)
  from bitlen_bounds [OF assms]
  have lo: "(2::int) ^ nat (bitlen p - 1) \<le> p" and hi: "p < (2::int) ^ nat (bitlen p)"
    by blast+
  from lo have "rat_of_int (2 ^ nat (bitlen p - 1)) \<le> of_int p" by (simp only: of_int_le_iff)
  then have "(2::rat) ^ nat (bitlen p - 1) \<le> of_int p" by simp
  moreover have "(2::rat) powi (bitlen p - 1) = 2 ^ nat (bitlen p - 1)"
    using b by (simp add: power_int_nonneg_exp)
  ultimately show "(2::rat) powi (bitlen p - 1) \<le> of_int p" by simp
  from hi have "rat_of_int p < of_int (2 ^ nat (bitlen p))" by (simp only: of_int_less_iff)
  then have "rat_of_int p < 2 ^ nat (bitlen p)" by simp
  moreover have "(2::rat) powi bitlen p = 2 ^ nat (bitlen p)"
    using b by (simp add: power_int_nonneg_exp)
  ultimately show "of_int p < (2::rat) powi bitlen p" by simp
qed

lemma ilog2_bounds:
  assumes "0 < x"
  shows "2 powi ilog2 x \<le> x \<and> x < 2 powi (ilog2 x + 1)"
proof -
  obtain p q where pq: "quotient_of x = (p, q)" by (cases "quotient_of x")
  then have q: "0 < q" and x: "x = of_int p / of_int q"
    using quotient_of_denom_pos quotient_of_div by blast+
  with assms have p: "0 < p" by (simp add: zero_less_divide_iff)
  let ?d = "bitlen p - bitlen q"
  note p1 = bitlen_bounds_rat(1) [OF p] and p2 = bitlen_bounds_rat(2) [OF p]
  note q1 = bitlen_bounds_rat(1) [OF q] and q2 = bitlen_bounds_rat(2) [OF q]
  have qpos: "(0::rat) < of_int q" using q by simp
  have e1: "(2::rat) powi (?d - 1) * 2 powi bitlen q = 2 powi (bitlen p - 1)"
    by (simp flip: power_int_add)
  have e2: "(2::rat) powi (?d + 1) * 2 powi (bitlen q - 1) = 2 powi bitlen p"
    by (simp flip: power_int_add)
  have lower: "(2::rat) powi (?d - 1) < x"
  proof -
    have "(2::rat) powi (?d - 1) * of_int q < 2 powi (?d - 1) * 2 powi bitlen q"
      by (rule mult_strict_left_mono [OF q2]) simp
    also have "\<dots> \<le> of_int p" unfolding e1 by (rule p1)
    finally have "(2::rat) powi (?d - 1) * of_int q < of_int p" .
    then show ?thesis unfolding x using qpos by (simp only: pos_less_divide_eq)
  qed
  have upper: "x < (2::rat) powi (?d + 1)"
  proof -
    have "of_int p < (2::rat) powi (?d + 1) * 2 powi (bitlen q - 1)" unfolding e2 by (rule p2)
    also have "\<dots> \<le> 2 powi (?d + 1) * of_int q"
      by (rule mult_left_mono [OF q1]) simp
    finally have "of_int p < (2::rat) powi (?d + 1) * of_int q" .
    then show ?thesis unfolding x using qpos by (simp only: pos_divide_less_eq)
  qed
  show ?thesis
  proof (cases "(2::rat) powi ?d \<le> x")
    case True
    then have "ilog2 x = ?d" by (simp add: ilog2_def pq)
    with True upper show ?thesis by simp
  next
    case False
    then have "ilog2 x = ?d - 1" by (simp add: ilog2_def pq)
    with False lower show ?thesis by simp
  qed
qed

lemma fl_error:
  assumes "0 < x"
  shows "\<bar>fl x - x\<bar> \<le> x / 2 ^ 53"
proof -
  define s :: rat where "s = 2 powi (ilog2 x - 52)"
  define r :: rat where "r = of_int (round_half_even (x / s))"
  have s: "0 < s" by (simp add: s_def)
  have flx: "fl x = r * s"
    using assms by (simp add: fl_def Let_def r_def s_def)
  have "x = x / s * s" using s by simp
  then have "fl x - x = (r - x / s) * s" unfolding flx by (simp add: left_diff_distrib)
  then have "\<bar>fl x - x\<bar> = \<bar>r - x / s\<bar> * s" using s by (simp add: abs_mult)
  also have "\<dots> \<le> 1 / 2 * s"
    unfolding r_def by (rule mult_right_mono [OF round_half_even_error]) (use s in simp)
  also have "1 / 2 * s = 2 powi ilog2 x / 2 ^ 53"
    by (simp add: s_def power_int_diff)
  also have "\<dots> \<le> x / 2 ^ 53"
    using ilog2_bounds [OF assms] by (intro divide_right_mono) simp_all
  finally show ?thesis .
qed

lemma fl_bounds:
  assumes "0 < x"
  shows "x - x / 2 ^ 53 \<le> fl x" and "fl x \<le> x + x / 2 ^ 53"
  using fl_error [OF assms] by linarith+

section \<open>Health check\<close>

text \<open>
  Claim C9.  The response of the health check depends on the configured credential only
  through whether it is empty: two settings whose credentials are both empty or both
  non-empty give the same response.  The only string in the response is the constant
  \<open>healthy\<close>; its other field is a boolean, so no field carries the credential.
\<close>

theorem health_check_hides_credential:
  "(OPENAI_API_KEY s1 = [] \<longleftrightarrow> OPENAI_API_KEY s2 = []) \<Longrightarrow>
     health_check s1 = health_check s2 \<and>
     status (health_check s1) = ''healthy'' \<and>
     (health_check s1 = \<lparr>status = ''healthy'', openai_configured = True\<rparr> \<or>
      health_check s1 = \<lparr>status = ''healthy'', openai_configured = False\<rparr>)"
  by (auto simp: health_check_def)

theorem health_check_hides_credential_witness:
  "(OPENAI_API_KEY (example_settings ''sk-one'') = [] \<longleftrightarrow>
      OPENAI_API_KEY (example_settings ''sk-another'') = []) \<and>
   health_check (example_settings ''sk-one'') = health_check (example_settings ''sk-another'') \<and>
   health_check (example_settings ''sk-one'') = \<lparr>status = ''healthy'', openai_configured = True\<rparr>"
proof -
  have h: "OPENAI_API_KEY (example_settings ''sk-one'') = [] \<longleftrightarrow>
           OPENAI_API_KEY (example_settings ''sk-another'') = []"
    by (simp add: example_settings_def)
  show ?thesis
    using h health_check_hides_credential [OF h]
    by (simp add: example_settings_def health_check_def)
qed

section \<open>Demand forecasting: validation\<close>

text \<open>
  The two validation errors are raised inside the \<open>try\<close> block, so the handler for
  \<open>Exception\<close> catches them: a series that is too short or whose lengths differ ends in
  status 500, with no external call.
\<close>

lemma predict_demand_invalid_series:
  assumes "length (historical_sales request) < 3 \<or>
           length (historical_sales request) \<noteq> length (dates request)"
  shows "\<exists>detail. predict_demand env request =
           (Inl (HTTPException 500 (''Forecasting error: '' @ detail)), [])"
  using assms by (auto simp: predict_demand_def predict_demand_body_def)

text \<open>
  Claim C1.  A request with fewer than three points is to fail with status 400 and no
  external call.  On a request with two points the endpoint makes no external call, but
  the status of the failure is 500: the exception with status 400 is caught by the
  endpoint's own handler, and its text becomes the detail of an exception with status 500.
\<close>

theorem predict_demand_two_points_status_500:
  "predict_demand (example_demand_env unit_row) two_point_request =
     (Inl (HTTPException 500
        ''Forecasting error: 400: Need at least 3 months of historical data for forecasting''),
      [])"
  by code_simp

section \<open>Demand forecasting: the response\<close>

subsection \<open>Rounding and clamping\<close>


lemma fl_095: "fl (19 / 20) = 8556839292003942 / 2 ^ 53"
  by code_simp

lemma fl_095_bounds: "1 / 2 \<le> fl (19 / 20)" "fl (19 / 20) \<le> 19 / 20" "94 / 100 + 94 / 100 / 2 ^ 53 \<le> fl (19 / 20)"
  by (simp_all add: fl_095)





lemma numpy_round2_two_decimal: "two_decimal_rounding numpy_round2"
  unfolding two_decimal_rounding_def
proof (intro allI impI)
  fix x :: rat
  assume x: "1 / 2 \<le> x \<and> x \<le> fl (19 / 20)"
  then have x1: "x \<le> 1" using fl_095_bounds(2) by linarith
  have pos: "0 < x * 100" using x by simp
  let ?y = "fl (x * 100)"
  let ?k = "round_half_even ?y"
  have "\<bar>?y - x * 100\<bar> \<le> x * 100 / 2 ^ 53" by (rule fl_error [OF pos])
  also have "\<dots> \<le> 100 / 2 ^ 53" using x1 by simp
  finally have y: "\<bar>?y - x * 100\<bar> \<le> 100 / 2 ^ 53" .
  have k: "\<bar>of_int ?k - ?y\<bar> \<le> 1 / 2" by (rule round_half_even_error)
  from y k have "\<bar>of_int ?k - x * 100\<bar> \<le> 1 / 2 + 100 / 2 ^ 53" by linarith
  then have "\<bar>of_int ?k / 100 - x\<bar> \<le> 1 / 200 + 1 / 2 ^ 53"
    by (simp add: abs_le_iff field_simps)
  then have "\<bar>of_int ?k / 100 - x\<bar> \<le> 1 / 200 + 1 / 2 ^ 50" by simp
  then show "\<exists>k::int. numpy_round2 x = fl (of_int k / 100) \<and>
               \<bar>of_int k / 100 - x\<bar> \<le> 1 / 200 + 1 / 2 ^ 50"
    unfolding numpy_round2_def by blast
qed



lemma length_tail: "length (tail n xs) = min n (length xs)"
  by (auto simp: tail_def)



subsection \<open>Trend\<close>







subsection \<open>Confidence\<close>



section \<open>Recommendations: what every response satisfies\<close>

lemma fl_nonneg: "0 \<le> x \<Longrightarrow> 0 \<le> fl x"
  by (cases "x = 0") (simp_all add: fl_def Let_def round_half_even_def)

lemma fl_one: "fl 1 = 1"
  by code_simp

lemma fl_table:
  "fl (3 / 4) = 3 / 4"
  "fl (7 / 10) = 6305039478318694 / 2 ^ 53"
  "fl (13 / 20) = 5854679515581645 / 2 ^ 53"
  "fl (3 / 5) = 5404319552844595 / 2 ^ 53"
  by code_simp+

lemma associated_products_default:
  "associated_products item_id =
     [\<lparr>product_id = ''recommended-1'', confidence = fl (75 / 100), reason = ''Popular combination''\<rparr>,
      \<lparr>product_id = ''recommended-2'', confidence = fl (70 / 100), reason = ''Frequently bought together''\<rparr>,
      \<lparr>product_id = ''recommended-3'', confidence = fl (65 / 100), reason = ''Similar customers bought''\<rparr>]"
  by (simp add: associated_products_def FREQUENTLY_BOUGHT_TOGETHER_def)

lemma associated_products_confidence:
  "\<forall>a \<in> set (associated_products item_id). 1 / 2 \<le> confidence a \<and> confidence a \<le> 8 / 10"
  by (simp add: associated_products_default fl_table)

lemma round_half_even_percent:
  assumes "0 \<le> y" and "y \<le> 100"
  shows "0 \<le> round_half_even y \<and> round_half_even y \<le> 100"
proof -
  from round_half_even_error [of y] have "- (1 / 2) \<le> rat_of_int (round_half_even y) - y"
    and "rat_of_int (round_half_even y) - y \<le> 1 / 2" by linarith+
  with assms have "(-1::rat) < of_int (round_half_even y)" "rat_of_int (round_half_even y) < 101"
    by linarith+
  then have "-1 < round_half_even y" "round_half_even y < 101" by linarith+
  then show ?thesis by simp
qed

lemma py_round2_unit:
  assumes "0 \<le> x" and "x \<le> 1"
  shows "0 \<le> py_round2 x \<and> py_round2 x \<le> 1"
proof -
  let ?k = "round_half_even (x * 100)"
  from round_half_even_percent [of "x * 100"] assms have k: "0 \<le> ?k" "?k \<le> 100" by simp_all
  have lower: "0 \<le> py_round2 x" unfolding py_round2_def using k(1) by (intro fl_nonneg) simp
  have upper: "py_round2 x \<le> 1"
  proof (cases "?k = 100")
    case True
    then show ?thesis by (simp add: py_round2_def fl_one)
  next
    case False
    show ?thesis
    proof (cases "?k = 0")
      case True
      then show ?thesis by (simp add: py_round2_def fl_def)
    next
      case nz: False
      with k have pos: "0 < rat_of_int ?k / 100" by simp
      from False k have "?k \<le> 99" by simp
      then have "rat_of_int ?k / 100 \<le> 99 / 100" by simp
      then have "rat_of_int ?k / 100 + rat_of_int ?k / 100 / 2 ^ 53 \<le> 99 / 100 + 99 / 100 / 2 ^ 53"
        by simp
      with fl_bounds(2) [OF pos] show ?thesis unfolding py_round2_def by simp
    qed
  qed
  from lower upper show ?thesis ..
qed

lemma perturbed_confidence_unit:
  assumes "1 / 2 \<le> c" and "c \<le> 8 / 10" and "- (1 / 10) \<le> u" and "u \<le> 1 / 10"
  shows "0 \<le> py_round2 (fl (c + u)) \<and> py_round2 (fl (c + u)) \<le> 1"
proof -
  have pos: "0 < c + u" using assms by linarith
  define d where "d = (c + u) / 2 ^ 53"
  have z: "c + u = d * 2 ^ 53" by (simp add: d_def)
  have "c + u \<le> 9 / 10" using assms by linarith
  moreover have "fl (c + u) \<le> c + u + d" unfolding d_def by (rule fl_bounds(2) [OF pos])
  ultimately have "fl (c + u) \<le> 1" using z by simp
  moreover have "0 \<le> fl (c + u)" using pos by (intro fl_nonneg) simp
  ultimately show ?thesis by (rule py_round2_unit [rotated])
qed

text \<open>
  The inner loop keeps the identifiers of the recommendations pairwise distinct, inside
  \<open>seen_products\<close> and outside the cart, as long as the cart is inside \<open>seen_products\<close>.
\<close>

lemma assoc_loop_fresh:
  assumes "assoc_loop uniform assocs (recs, seen, k) = (recs', seen', k')"
    and "distinct (map product_id recs)"
    and "product_id ` set recs \<subseteq> seen - cart"
    and "cart \<subseteq> seen"
  shows "distinct (map product_id recs') \<and> product_id ` set recs' \<subseteq> seen' - cart \<and>
         cart \<subseteq> seen'"
  using assms
proof (induction assocs arbitrary: recs seen k)
  case Nil
  then show ?case by simp
next
  case (Cons a assocs)
  show ?case
  proof (cases "product_id a \<in> seen")
    case True
    with Cons.prems have "assoc_loop uniform assocs (recs, seen, k) = (recs', seen', k')" by simp
    from Cons.IH [OF this] Cons.prems show ?thesis by simp
  next
    case False
    let ?r = "\<lparr>product_id = product_id a, confidence = py_round2 (fl (confidence a + uniform k)),
               reason = reason a\<rparr>"
    from False Cons.prems have step:
      "assoc_loop uniform assocs (recs @ [?r], insert (product_id a) seen, Suc k) = (recs', seen', k')"
      by simp
    have notin: "product_id a \<notin> product_id ` set recs" using False Cons.prems(3) by auto
    have notcart: "product_id a \<notin> cart" using False Cons.prems(4) by auto
    show ?thesis
    proof (rule Cons.IH [OF step])
      show "distinct (map product_id (recs @ [?r]))" using Cons.prems(2) notin by simp
      show "product_id ` set (recs @ [?r]) \<subseteq> insert (product_id a) seen - cart"
        using Cons.prems(3) notcart by auto
      show "cart \<subseteq> insert (product_id a) seen" using Cons.prems(4) by auto
    qed
  qed
qed

lemma cart_loop_fresh:
  assumes "cart_loop uniform items (recs, seen, k) = (recs', seen', k')"
    and "distinct (map product_id recs)"
    and "product_id ` set recs \<subseteq> seen - cart"
    and "cart \<subseteq> seen"
  shows "distinct (map product_id recs') \<and> product_id ` set recs' \<subseteq> seen' - cart \<and>
         cart \<subseteq> seen'"
  using assms
proof (induction items arbitrary: recs seen k)
  case Nil
  then show ?case by simp
next
  case (Cons item items)
  obtain recs1 seen1 k1 where
    inner: "assoc_loop uniform (associated_products item) (recs, seen, k) = (recs1, seen1, k1)"
    by (metis prod_cases3)
  with Cons.prems(1) have rest: "cart_loop uniform items (recs1, seen1, k1) = (recs', seen', k')"
    by simp
  from assoc_loop_fresh [OF inner Cons.prems(2-4)]
  have "distinct (map product_id recs1)" "product_id ` set recs1 \<subseteq> seen1 - cart" "cart \<subseteq> seen1"
    by blast+
  from Cons.IH [OF rest this] show ?case .
qed

text \<open>With every draw within 0.1 of zero, the loops keep every confidence in the unit interval.\<close>

lemma assoc_loop_confidence:
  assumes "assoc_loop uniform assocs (recs, seen, k) = (recs', seen', k')"
    and "\<forall>a \<in> set assocs. 1 / 2 \<le> confidence a \<and> confidence a \<le> 8 / 10"
    and "\<forall>k. - (1 / 10) \<le> uniform k \<and> uniform k \<le> 1 / 10"
    and "\<forall>r \<in> set recs. 0 \<le> confidence r \<and> confidence r \<le> 1"
  shows "\<forall>r \<in> set recs'. 0 \<le> confidence r \<and> confidence r \<le> 1"
  using assms
proof (induction assocs arbitrary: recs seen k)
  case Nil
  then show ?case by simp
next
  case (Cons a assocs)
  have rest: "\<forall>a\<in>set assocs. 1 / 2 \<le> confidence a \<and> confidence a \<le> 8 / 10"
    using Cons.prems(2) by simp
  show ?case
  proof (cases "product_id a \<in> seen")
    case True
    with Cons.prems have "assoc_loop uniform assocs (recs, seen, k) = (recs', seen', k')" by simp
    from Cons.IH [OF this rest Cons.prems(3,4)] show ?thesis .
  next
    case False
    let ?r = "\<lparr>product_id = product_id a, confidence = py_round2 (fl (confidence a + uniform k)),
               reason = reason a\<rparr>"
    from False Cons.prems have step:
      "assoc_loop uniform assocs (recs @ [?r], insert (product_id a) seen, Suc k) = (recs', seen', k')"
      by simp
    have a: "1 / 2 \<le> confidence a" "confidence a \<le> 8 / 10" using Cons.prems(2) by simp_all
    have u: "- (1 / 10) \<le> uniform k" "uniform k \<le> 1 / 10" using Cons.prems(3) by simp_all
    note c = perturbed_confidence_unit [OF a u]
    have "\<forall>r\<in>set (recs @ [?r]). 0 \<le> confidence r \<and> confidence r \<le> 1"
      using Cons.prems(4) c by auto
    from Cons.IH [OF step rest Cons.prems(3) this] show ?thesis .
  qed
qed

lemma cart_loop_confidence:
  assumes "cart_loop uniform items (recs, seen, k) = (recs', seen', k')"
    and "\<forall>k. - (1 / 10) \<le> uniform k \<and> uniform k \<le> 1 / 10"
    and "\<forall>r \<in> set recs. 0 \<le> confidence r \<and> confidence r \<le> 1"
  shows "\<forall>r \<in> set recs'. 0 \<le> confidence r \<and> confidence r \<le> 1"
  using assms
proof (induction items arbitrary: recs seen k)
  case Nil
  then show ?case by simp
next
  case (Cons item items)
  obtain recs1 seen1 k1 where
    inner: "assoc_loop uniform (associated_products item) (recs, seen, k) = (recs1, seen1, k1)"
    by (metis prod_cases3)
  with Cons.prems(1) have rest: "cart_loop uniform items (recs1, seen1, k1) = (recs', seen', k')"
    by simp
  from assoc_loop_confidence [OF inner associated_products_confidence Cons.prems(2,3)]
  have "\<forall>r \<in> set recs1. 0 \<le> confidence r \<and> confidence r \<le> 1" .
  from Cons.IH [OF rest Cons.prems(2) this] show ?case .
qed

text \<open>
  The list that the two loops accumulate from a cart, with or without duplicates, has
  pairwise distinct identifiers, none of them in the cart.
\<close>

lemma accumulated_recommendations_fresh:
  assumes "cart_loop uniform cart ([], set cart, 0) = (recs, seen, k)"
  shows "distinct (map product_id recs) \<and> product_id ` set recs \<inter> set cart = {}"
proof -
  have "distinct (map product_id recs) \<and> product_id ` set recs \<subseteq> seen - set cart \<and>
        set cart \<subseteq> seen"
    by (rule cart_loop_fresh [OF assms]) simp_all
  then show ?thesis by blast
qed

text \<open>
  The confidences of the placeholder list are the doubles that Python prints as 0.8,
  0.7000000000000001 and 0.6000000000000001.
\<close>

lemma popular_products_eq:
  "popular_products =
     [\<lparr>product_id = ''popular-0'', confidence = 3602879701896397 / 2 ^ 52,
       reason = ''Trending product''\<rparr>,
      \<lparr>product_id = ''popular-1'', confidence = 6305039478318695 / 2 ^ 53,
       reason = ''Trending product''\<rparr>,
      \<lparr>product_id = ''popular-2'', confidence = 5404319552844596 / 2 ^ 53,
       reason = ''Trending product''\<rparr>]"
  by code_simp

lemma sort_by_confidence_descending:
  "sorted_wrt (\<ge>) (map confidence (sort_by_confidence recs))"
proof -
  have "sorted (map (\<lambda>x. - confidence x) (sort_key (\<lambda>x. - confidence x) recs))"
    by (rule sorted_sort_key)
  then show ?thesis
    by (simp add: sort_by_confidence_def sorted_wrt_map)
qed

lemma top_five_properties:
  assumes "distinct (map product_id recs)"
    and "\<forall>r \<in> set recs. 0 \<le> confidence r \<and> confidence r \<le> 1"
  shows "length (take 5 (sort_by_confidence recs)) \<le> 5"
    and "distinct (map product_id (take 5 (sort_by_confidence recs)))"
    and "\<forall>r \<in> set (take 5 (sort_by_confidence recs)). 0 \<le> confidence r \<and> confidence r \<le> 1"
    and "sorted_wrt (\<ge>) (map confidence (take 5 (sort_by_confidence recs)))"
    and "set (take 5 (sort_by_confidence recs)) \<subseteq> set recs"
proof -
  show "length (take 5 (sort_by_confidence recs)) \<le> 5" by simp
  have sub: "set (take 5 (sort_by_confidence recs)) \<subseteq> set recs"
    using set_take_subset [of 5 "sort_by_confidence recs"] by (simp add: sort_by_confidence_def)
  then show "set (take 5 (sort_by_confidence recs)) \<subseteq> set recs" .
  from sub assms(2) show "\<forall>r \<in> set (take 5 (sort_by_confidence recs)). 0 \<le> confidence r \<and> confidence r \<le> 1"
    by blast
  have "distinct (map product_id (sort_by_confidence recs))"
    using assms(1) by (simp add: distinct_map sort_by_confidence_def)
  then have "distinct (take 5 (map product_id (sort_by_confidence recs)))" by simp
  then show "distinct (map product_id (take 5 (sort_by_confidence recs)))" by (simp add: take_map)
  have "sorted_wrt (\<ge>) (take 5 (map confidence (sort_by_confidence recs)))"
    using sort_by_confidence_descending by (rule sorted_wrt_take)
  then show "sorted_wrt (\<ge>) (map confidence (take 5 (sort_by_confidence recs)))"
    by (simp add: take_map)
qed

text \<open>
  Every response has at most five recommendations, with pairwise distinct identifiers,
  confidences in the unit interval and in descending order.  None of them is in the cart
  unless the cart contains the identifier of the fallback recommendation: the fallback of
  lines 87 to 94 is appended without looking at the cart or at \<open>seen_products\<close>.
\<close>

lemma recommend_upsell_invariants:
  assumes u: "\<forall>k. - (1 / 10) \<le> uniform k \<and> uniform k \<le> 1 / 10"
  shows "length (recommendations (recommend_upsell uniform request)) \<le> 5 \<and>
         distinct (map product_id (recommendations (recommend_upsell uniform request))) \<and>
         (\<forall>r \<in> set (recommendations (recommend_upsell uniform request)).
            0 \<le> confidence r \<and> confidence r \<le> 1) \<and>
         sorted_wrt (\<ge>) (map confidence (recommendations (recommend_upsell uniform request))) \<and>
         (''complementary-product'' \<notin> set (current_cart_items request) \<longrightarrow>
            product_id ` set (recommendations (recommend_upsell uniform request)) \<inter>
              set (current_cart_items request) = {})"
proof (cases "current_cart_items request = []")
  case True
  then show ?thesis by (simp add: recommend_upsell_def popular_products_eq)
next
  case False
  let ?cart = "current_cart_items request"
  obtain recs seen k where
    loop: "cart_loop uniform ?cart ([], set ?cart, 0) = (recs, seen, k)"
    by (metis prod_cases3)
  let ?top = "take 5 (sort_by_confidence recs)"
  have inv: "distinct (map product_id recs) \<and> product_id ` set recs \<inter> set ?cart = {}"
    by (rule accumulated_recommendations_fresh [OF loop])
  then have d: "distinct (map product_id recs)" by blast
  have c: "\<forall>r \<in> set recs. 0 \<le> confidence r \<and> confidence r \<le> 1"
    by (rule cart_loop_confidence [OF loop u]) simp
  note top = top_five_properties [OF d c]
  have res: "recommendations (recommend_upsell uniform request) =
        (if ?top = [] then [\<lparr>product_id = ''complementary-product'', confidence = fl (60 / 100),
                              reason = ''Complementary product''\<rparr>] else ?top)"
    using False loop by (simp add: recommend_upsell_def Let_def)
  show ?thesis
  proof (cases "?top = []")
    case True
    with res have "recommendations (recommend_upsell uniform request) =
        [\<lparr>product_id = ''complementary-product'', confidence = fl (60 / 100),
          reason = ''Complementary product''\<rparr>]" by simp
    then show ?thesis by (simp add: fl_table)
  next
    case nonempty: False
    with res have eq: "recommendations (recommend_upsell uniform request) = ?top" by simp
    have "product_id ` set ?top \<inter> set ?cart = {}"
      using top(5) inv by blast
    with top(1-4) show ?thesis
      unfolding eq by blast
  qed
qed

text \<open>A draw of -0.005 on the second candidate: 0.7 - 0.005 rounds to 0.69.\<close>

lemma perturbed_example:
  "map confidence (recommendations (recommend_upsell (\<lambda>k. if k = 1 then - fl (5 / 1000) else 0)
      \<lparr>upsell_tenant_id = ''tenant'', current_cart_items = [''prod-123'']\<rparr>)) =
   [fl (75 / 100), fl (69 / 100), fl (65 / 100)]"
  by code_simp

text \<open>
  Claim C7.  For an empty cart the confidences are to be exactly 0.8, 0.7 and 0.6.  The
  endpoint computes \<open>0.8 - i * 0.1\<close> in doubles and does not round the result: the second
  and the third confidence are the doubles that print as 0.7000000000000001 and
  0.6000000000000001, which are neither the numbers 0.7 and 0.6 nor the doubles nearest
  to them.
\<close>

theorem empty_cart_confidences_not_exact:
  "current_cart_items empty_cart_request = [] \<and>
   map confidence (recommendations (recommend_upsell (\<lambda>k. 0) empty_cart_request)) =
     [3602879701896397 / 2 ^ 52, 6305039478318695 / 2 ^ 53, 5404319552844596 / 2 ^ 53] \<and>
   map confidence (recommendations (recommend_upsell (\<lambda>k. 0) empty_cart_request)) \<noteq>
     [8 / 10, 7 / 10, 6 / 10] \<and>
   map confidence (recommendations (recommend_upsell (\<lambda>k. 0) empty_cart_request)) \<noteq>
     [fl (8 / 10), fl (7 / 10), fl (6 / 10)]"
  by (simp add: empty_cart_request_def recommend_upsell_def popular_products_eq fl_table)

text \<open>
  Claim C7, amended.  For an empty cart the response has exactly three recommendations,
  \<open>popular-0\<close> to \<open>popular-2\<close>, each with the reason \<open>Trending product\<close>; their
  confidences are the doubles that \<open>0.8 - i * 0.1\<close> gives for \<open>i\<close> = 0, 1, 2, which are
  within \<open>1 / 2 ^ 52\<close> of 0.8, 0.7 and 0.6 and strictly decreasing.
\<close>

theorem empty_cart_recommendations:
  "current_cart_items request = [] \<Longrightarrow>
     (let recs = recommendations (recommend_upsell uniform request)
      in length recs = min 3 5 \<and> length recs = 3 \<and>
         map product_id recs = [''popular-0'', ''popular-1'', ''popular-2''] \<and>
         map confidence recs =
           [3602879701896397 / 2 ^ 52, 6305039478318695 / 2 ^ 53, 5404319552844596 / 2 ^ 53] \<and>
         \<bar>confidence (recs ! 0) - 8 / 10\<bar> \<le> 1 / 2 ^ 52 \<and>
         \<bar>confidence (recs ! 1) - 7 / 10\<bar> \<le> 1 / 2 ^ 52 \<and>
         \<bar>confidence (recs ! 2) - 6 / 10\<bar> \<le> 1 / 2 ^ 52 \<and>
         sorted_wrt (>) (map confidence recs) \<and>
         (\<forall>r \<in> set recs. reason r = ''Trending product''))"
  by (simp add: recommend_upsell_def popular_products_eq)

theorem empty_cart_recommendations_witness:
  "current_cart_items empty_cart_request = [] \<and>
   map confidence (recommendations (recommend_upsell (\<lambda>k. 0) empty_cart_request)) =
     [3602879701896397 / 2 ^ 52, 6305039478318695 / 2 ^ 53, 5404319552844596 / 2 ^ 53] \<and>
   length (recommendations (recommend_upsell (\<lambda>k. 0) empty_cart_request)) = 3"
proof -
  have h: "current_cart_items empty_cart_request = []" by (simp add: empty_cart_request_def)
  show ?thesis
    using h empty_cart_recommendations [OF h, of "\<lambda>k. 0"] by (simp add: Let_def)
qed

text \<open>
  Claim C4.  The recommendations are never to contain a product of the cart, the
  fallback case included.  For a cart that holds the three associated products and the
  product \<open>complementary-product\<close>, the loops emit nothing and the response is the
  fallback recommendation, whose product is in the cart.
\<close>

theorem saturated_cart_recommends_cart_item:
  "recommendations (recommend_upsell (\<lambda>k. 0) saturated_cart_request) =
     [\<lparr>product_id = ''complementary-product'', confidence = fl (60 / 100),
       reason = ''Complementary product''\<rparr>] \<and>
   ''complementary-product'' \<in> set (current_cart_items saturated_cart_request)"
  by (simp add: recommend_upsell_def saturated_cart_request_def associated_products_default
      sort_by_confidence_def)

text \<open>
  Claim C10.  For a non-empty cart with duplicates the recommendations are to be disjoint
  from the cart.  The list accumulated by the loops is (lemma
  \<open>accumulated_recommendations_fresh\<close>), but the response for the cart below, in which
  one product occurs twice, is the fallback recommendation, whose product is in the cart.
\<close>

theorem duplicate_cart_recommends_cart_item:
  "current_cart_items duplicate_cart_request \<noteq> [] \<and>
   \<not> distinct (current_cart_items duplicate_cart_request) \<and>
   map product_id (recommendations (recommend_upsell (\<lambda>k. 0) duplicate_cart_request)) =
     [''complementary-product''] \<and>
   ''complementary-product'' \<in> set (current_cart_items duplicate_cart_request)"
  by (simp add: recommend_upsell_def duplicate_cart_request_def associated_products_default
      sort_by_confidence_def)

section \<open>Chat: the outbound messages\<close>

lemma copy_message: "\<lparr>role = role msg, content = content msg\<rparr> = (msg :: ChatMessage)"
  by (cases msg) simp

lemma build_messages_eq:
  "build_messages page request ctx =
     \<lparr>role = ''system'', content = system_prompt page (chat_tenant_id request)\<rparr> #
     tail 5 (conversation_history ctx) @ [\<lparr>role = ''user'', content = user_message request\<rparr>]"
  by (simp add: build_messages_def Let_def copy_message tail_def)

lemma length_build_messages:
  "length (build_messages page request ctx) = 1 + min (length (conversation_history ctx)) 5 + 1"
  by (simp add: build_messages_eq length_tail min.commute)

lemma chat_calls:
  "snd (chat settings env request) =
     (if OPENAI_API_KEY settings = [] then []
      else if \<not> openai_installed env then [ImportOpenAI]
      else case request_context request of
             None \<Rightarrow> [ImportOpenAI]
           | Some ctx \<Rightarrow>
               [ImportOpenAI,
                ChatCompletionsCreate
                  \<lparr>model = ''gpt-4o-mini'',
                   messages = build_messages
                     (case current_page ctx of None \<Rightarrow> ''unknown''
                      | Some p \<Rightarrow> if p = [] then ''unknown'' else p) request ctx,
                   max_tokens = 300, temperature = fl (7 / 10)\<rparr>])"
  by (auto simp: chat_def chat_body_def Let_def split: option.splits sum.splits exn.splits)

text \<open>A history of seven entries: the two oldest are dropped, the order of the rest is kept.\<close>

lemma long_history_chat:
  "snd (chat (example_settings ''sk-test'') example_chat_env long_history_request) =
     [ImportOpenAI,
      ChatCompletionsCreate
        \<lparr>model = ''gpt-4o-mini'',
         messages =
           [\<lparr>role = ''system'', content = system_prompt ''unknown'' ''tenant''\<rparr>,
            \<lparr>role = ''user'', content = ''2''\<rparr>, \<lparr>role = ''assistant'', content = ''3''\<rparr>,
            \<lparr>role = ''user'', content = ''4''\<rparr>, \<lparr>role = ''assistant'', content = ''5''\<rparr>,
            \<lparr>role = ''user'', content = ''6''\<rparr>, \<lparr>role = ''user'', content = ''hello''\<rparr>],
         max_tokens = 300, temperature = fl (7 / 10)\<rparr>]"
  by code_simp

text \<open>
  Claim C5.  Whenever the endpoint calls the chat-completion collaborator, the message
  sequence it sends has length 1 + min(len(history), 5) + 1: the system message, the
  last five entries of the history in their order, the user's message.  The call is made
  whenever the credential is configured, the client library is installed and the request
  has a context; otherwise the endpoint fails before calling and nothing is sent.
\<close>

theorem outbound_messages_shape:
  "(\<forall>params. ChatCompletionsCreate params \<in> set (snd (chat settings env request)) \<longrightarrow>
      (\<exists>ctx. request_context request = Some ctx \<and>
         length (messages params) = 1 + min (length (conversation_history ctx)) 5 + 1 \<and>
         hd (messages params) =
           \<lparr>role = ''system'',
            content = system_prompt
              (case current_page ctx of None \<Rightarrow> ''unknown''
               | Some p \<Rightarrow> if p = [] then ''unknown'' else p)
              (chat_tenant_id request)\<rparr> \<and>
         messages params =
           hd (messages params) #
           drop (length (conversation_history ctx) - 5) (conversation_history ctx) @
           [\<lparr>role = ''user'', content = user_message request\<rparr>] \<and>
         last (messages params) = \<lparr>role = ''user'', content = user_message request\<rparr>)) \<and>
   (OPENAI_API_KEY settings \<noteq> [] \<and> openai_installed env \<and> request_context request \<noteq> None \<longrightarrow>
      (\<exists>params. snd (chat settings env request) = [ImportOpenAI, ChatCompletionsCreate params]))"
proof (intro conjI allI impI)
  fix params
  assume sent: "ChatCompletionsCreate params \<in> set (snd (chat settings env request))"
  then obtain ctx where ctx: "request_context request = Some ctx"
    and params: "messages params =
        build_messages (case current_page ctx of None \<Rightarrow> ''unknown''
                        | Some p \<Rightarrow> if p = [] then ''unknown'' else p) request ctx"
    by (auto simp: chat_calls split: if_splits option.splits)
  show "\<exists>ctx. request_context request = Some ctx \<and>
         length (messages params) = 1 + min (length (conversation_history ctx)) 5 + 1 \<and>
         hd (messages params) =
           \<lparr>role = ''system'',
            content = system_prompt
              (case current_page ctx of None \<Rightarrow> ''unknown''
               | Some p \<Rightarrow> if p = [] then ''unknown'' else p)
              (chat_tenant_id request)\<rparr> \<and>
         messages params =
           hd (messages params) #
           drop (length (conversation_history ctx) - 5) (conversation_history ctx) @
           [\<lparr>role = ''user'', content = user_message request\<rparr>] \<and>
         last (messages params) = \<lparr>role = ''user'', content = user_message request\<rparr>"
    using ctx unfolding params
    by (simp add: length_build_messages) (simp add: build_messages_eq tail_def)
next
  assume "OPENAI_API_KEY settings \<noteq> [] \<and> openai_installed env \<and> request_context request \<noteq> None"
  then show "\<exists>params. snd (chat settings env request) = [ImportOpenAI, ChatCompletionsCreate params]"
    by (auto simp: chat_calls)
qed

theorem outbound_messages_shape_witness:
  "OPENAI_API_KEY (example_settings ''sk-test'') \<noteq> [] \<and> openai_installed example_chat_env \<and>
   request_context long_history_request = Some long_history_context \<and>
   length (conversation_history long_history_context) = 7 \<and>
   (\<exists>params. snd (chat (example_settings ''sk-test'') example_chat_env long_history_request) =
        [ImportOpenAI, ChatCompletionsCreate params] \<and>
      length (messages params) = 1 + min 7 5 + 1 \<and>
      last (messages params) = \<lparr>role = ''user'', content = ''hello''\<rparr>)"
proof -
  let ?s = "example_settings ''sk-test''"
  have pre: "OPENAI_API_KEY ?s \<noteq> [] \<and> openai_installed example_chat_env \<and>
             request_context long_history_request \<noteq> None"
    by (simp add: example_settings_def example_chat_env_def long_history_request_def)
  have ctx: "request_context long_history_request = Some long_history_context"
    by (simp add: long_history_request_def)
  have len: "length (conversation_history long_history_context) = 7"
    by (simp add: long_history_context_def)
  have usr: "user_message long_history_request = ''hello''"
    by (simp add: long_history_request_def)
  note shape = outbound_messages_shape [of ?s example_chat_env long_history_request]
  from shape pre obtain params where
    calls: "snd (chat ?s example_chat_env long_history_request) =
              [ImportOpenAI, ChatCompletionsCreate params]"
    by blast
  then have "ChatCompletionsCreate params \<in> set (snd (chat ?s example_chat_env long_history_request))"
    by simp
  with shape ctx have
    "length (messages params) = 1 + min (length (conversation_history long_history_context)) 5 + 1 \<and>
     last (messages params) = \<lparr>role = ''user'', content = user_message long_history_request\<rparr>"
    by fastforce
  with pre ctx len usr calls show ?thesis by auto
qed

text \<open>
  Claim C8.  A request with a history entry whose role is neither \<open>user\<close> nor
  \<open>assistant\<close> is to be rejected before any external call.  The schema describes the
  field as \<open>Role: 'user' or 'assistant'\<close> but types it as a plain string and validates
  nothing: with the role \<open>tool\<close> the endpoint answers normally, and the entry is part of
  the messages sent to the collaborator.
\<close>

theorem unknown_role_is_forwarded:
  "role tool_entry \<notin> {''user'', ''assistant''} \<and>
   tool_entry \<in> set (conversation_history tool_context) \<and>
   chat (example_settings ''sk-test'') example_chat_env tool_role_request =
     (Inr \<lparr>response = ''ok'',
           suggestions = [''Create new order'', ''View recent orders'', ''Generate invoice'']\<rparr>,
      [ImportOpenAI,
       ChatCompletionsCreate
         \<lparr>model = ''gpt-4o-mini'',
          messages =
            [\<lparr>role = ''system'', content = system_prompt ''/sales'' ''tenant''\<rparr>,
             \<lparr>role = ''tool'', content = ''x''\<rparr>,
             \<lparr>role = ''user'', content = ''hello''\<rparr>],
          max_tokens = 300, temperature = fl (7 / 10)\<rparr>])"
  by code_simp

text \<open>
  The same happens to every role: whenever the call is made, each of the last five
  history entries is among the messages sent, unchanged.
\<close>

lemma any_role_is_forwarded:
  assumes "OPENAI_API_KEY settings \<noteq> []" and "openai_installed env"
    and "request_context request = Some ctx"
    and "msg \<in> set (tail 5 (conversation_history ctx))"
  shows "\<exists>params. snd (chat settings env request) = [ImportOpenAI, ChatCompletionsCreate params] \<and>
           msg \<in> set (messages params)"
  using assms by (simp add: chat_calls build_messages_eq)

section \<open>Invoice extraction: code fences\<close>

text \<open>\<open>py_in\<close> is the substring test.\<close>

lemma py_in_iff_sublist: "py_in p s \<longleftrightarrow> sublist p s"
  by (induction s) (auto simp: sublist_Cons_right)

lemma remove_all_absent: "\<not> py_in p s \<Longrightarrow> remove_all p s = s"
  by (induction s) auto

lemma prefix_fence_append:
  assumes "prefix ''```'' (s @ ''```'')" and "\<not> prefix ''```'' s"
  shows "s = [] \<or> s = [CHR 0x60] \<or> s = [CHR 0x60, CHR 0x60]"
proof (cases s)
  case Nil
  then show ?thesis by simp
next
  case (Cons a s1)
  note s = this
  show ?thesis
  proof (cases s1)
    case Nil
    with s assms show ?thesis by auto
  next
    case (Cons b s2)
    note s1 = this
    show ?thesis
    proof (cases s2)
      case Nil
      with s s1 assms show ?thesis by auto
    next
      case (Cons c s3)
      with s s1 assms show ?thesis by auto
    qed
  qed
qed

lemma remove_all_trailing_fence:
  "\<not> py_in ''```'' r \<Longrightarrow> remove_all ''```'' (r @ ''```'') = r"
proof (induction r)
  case Nil
  show ?case by simp
next
  case (Cons c cs)
  then have np: "\<not> prefix ''```'' (c # cs)" and nin: "\<not> py_in ''```'' cs" by simp_all
  show ?case
  proof (cases "prefix ''```'' ((c # cs) @ ''```'')")
    case True
    from prefix_fence_append [OF True np]
    have "c # cs = [CHR 0x60] \<or> c # cs = [CHR 0x60, CHR 0x60]" by simp
    then show ?thesis by auto
  next
    case False
    then have "remove_all ''```'' ((c # cs) @ ''```'') = c # remove_all ''```'' (cs @ ''```'')"
      by auto
    with Cons.IH [OF nin] show ?thesis by simp
  qed
qed

lemma prefix_json_fence:
  assumes "prefix ''```json'' (s @ ''```'')"
  shows "prefix ''```'' s"
proof (cases s)
  case Nil
  with assms show ?thesis by simp
next
  case (Cons a s1)
  note s = this
  show ?thesis
  proof (cases s1)
    case Nil
    with s assms show ?thesis by auto
  next
    case (Cons b s2)
    note s1 = this
    show ?thesis
    proof (cases s2)
      case Nil
      with s s1 assms show ?thesis by auto
    next
      case (Cons c s3)
      with s s1 assms show ?thesis by auto
    qed
  qed
qed

lemma json_fence_absent:
  "\<not> py_in ''```'' r \<Longrightarrow> \<not> py_in ''```json'' (r @ ''```'')"
proof (induction r)
  case Nil
  show ?case by simp
next
  case (Cons c cs)
  then have np: "\<not> prefix ''```'' (c # cs)" and nin: "\<not> py_in ''```'' cs" by simp_all
  have "\<not> prefix ''```json'' ((c # cs) @ ''```'')"
    using prefix_json_fence [of "c # cs"] np by blast
  moreover have "\<not> py_in ''```json'' (cs @ ''```'')" by (rule Cons.IH [OF nin])
  ultimately show ?case by simp
qed

lemma not_prefix_fence: "\<not> py_in ''```'' r \<Longrightarrow> \<not> prefix ''```'' r"
  by (cases r) auto

lemma strip_json_fenced:
  assumes "\<not> py_in ''```'' r"
  shows "strip_code_fences (''```json'' @ r @ ''```'') = py_strip r"
proof -
  have "remove_all ''```json'' (''```json'' @ r @ ''```'') = remove_all ''```json'' (r @ ''```'')"
    by simp
  also have "\<dots> = r @ ''```''"
    by (rule remove_all_absent [OF json_fence_absent [OF assms]])
  finally have "remove_all ''```'' (remove_all ''```json'' (''```json'' @ r @ ''```'')) = r"
    by (simp only: remove_all_trailing_fence [OF assms])
  moreover have "prefix ''```json'' (''```json'' @ r @ ''```'')" by simp
  ultimately show ?thesis by (simp only: strip_code_fences_def if_True)
qed

lemma prefix_json_word:
  assumes "prefix ''json'' (s @ ''```'')"
  shows "prefix ''json'' s"
proof (cases s)
  case Nil
  with assms show ?thesis by simp
next
  case (Cons a s1)
  note s = this
  show ?thesis
  proof (cases s1)
    case Nil
    with s assms show ?thesis by auto
  next
    case (Cons b s2)
    note s1 = this
    show ?thesis
    proof (cases s2)
      case Nil
      with s s1 assms show ?thesis by auto
    next
      case (Cons c s3)
      note s2 = this
      show ?thesis
      proof (cases s3)
        case Nil
        with s s1 s2 assms show ?thesis by auto
      next
        case (Cons d s4)
        with s s1 s2 assms show ?thesis by auto
      qed
    qed
  qed
qed

lemma strip_plain_fenced:
  assumes "\<not> py_in ''```'' r" and "\<not> prefix ''json'' r"
  shows "strip_code_fences (''```'' @ r @ ''```'') = py_strip r"
proof -
  have "\<not> prefix ''json'' (r @ ''```'')" using prefix_json_word assms(2) by blast
  then have nj: "\<not> prefix ''```json'' (''```'' @ r @ ''```'')" by simp
  have "remove_all ''```'' (''```'' @ r @ ''```'') = remove_all ''```'' (r @ ''```'')"
    by simp
  then have "remove_all ''```'' (''```'' @ r @ ''```'') = r"
    by (simp only: remove_all_trailing_fence [OF assms(1)])
  moreover have "prefix ''```'' (''```'' @ r @ ''```'')" by simp
  ultimately show ?thesis using nj by (simp only: strip_code_fences_def if_True if_False)
qed

lemma strip_unfenced:
  assumes "\<not> py_in ''```'' r"
  shows "strip_code_fences r = r"
proof -
  have a: "\<not> prefix ''```'' r" by (rule not_prefix_fence [OF assms])
  have "prefix ''```json'' r \<Longrightarrow> prefix ''```'' r"
    by (cases r) (auto simp: prefix_def)
  with a have b: "\<not> prefix ''```json'' r" by blast
  from a b show ?thesis by (simp only: strip_code_fences_def if_False)
qed

text \<open>
  Claim C6.  A reply wrapped in code fences is to parse exactly as the reply without
  them.  The post-processing, meant to remove the fences of a code block, deletes every
  run of three backquotes, those inside the reply too: for a well-formed extraction whose
  vendor name contains three backquotes, the text handed to the JSON parser (made visible
  by taking the identity as the parser) is a different JSON document when the reply is
  fenced, with another vendor name.
\<close>

theorem backquote_reply_parses_differently:
  \<open>parse_reply id (''```json'' @ backquote_reply @ ''```'') =
     ''{"vendor_name": "AB", "invoice_date": "2026-01-15", "total_amount": 10, "line_items": []}'' \<and>
   parse_reply id backquote_reply =
     ''{"vendor_name": "A```B", "invoice_date": "2026-01-15", "total_amount": 10, "line_items": []}'' \<and>
   parse_reply id (''```json'' @ backquote_reply @ ''```'') \<noteq> parse_reply id backquote_reply\<close>
  by code_simp

text \<open>
  Where the reply contains no run of three backquotes, the fences are removed as meant:
  the fenced reply is handed to the parser as the reply stripped of leading and trailing
  whitespace, which is what a JSON parser reads in the bare reply.
\<close>

lemma fenced_reply_parses_as_stripped:
  assumes "\<not> py_in ''```'' r"
  shows "parse_reply loads (''```json'' @ r @ ''```'') = loads (py_strip r) \<and>
         (\<not> prefix ''json'' r \<longrightarrow> parse_reply loads (''```'' @ r @ ''```'') = loads (py_strip r)) \<and>
         parse_reply loads r = loads r \<and>
         (py_strip r = r \<longrightarrow>
            parse_reply loads (''```json'' @ r @ ''```'') = parse_reply loads r)"
  using strip_json_fenced [OF assms] strip_plain_fenced [OF assms] strip_unfenced [OF assms]
  by (simp add: parse_reply_def)

lemma plain_reply_fenced:
  \<open>\<not> py_in ''```'' plain_reply \<and>
   parse_reply id (''```json'' @ plain_reply @ ''```'') = ''{"vendor_name": "Acme"}'' \<and>
   parse_reply id (''```'' @ plain_reply @ ''```'') = ''{"vendor_name": "Acme"}'' \<and>
   parse_reply id plain_reply = plain_reply\<close>
proof -
  have h: "\<not> py_in ''```'' plain_reply" by code_simp
  have s: \<open>py_strip plain_reply = ''{"vendor_name": "Acme"}''\<close> by code_simp
  have j: "\<not> prefix ''json'' plain_reply" by code_simp
  from fenced_reply_parses_as_stripped [OF h, of id] h s j show ?thesis by simp
qed

end
